theory Spec2Isabelle
  imports Complex_Main
begin

section \<open>Ada-GVAE adaptive averaging (disent/frameworks/semisupervised/adavae.py)\<close>

text \<open>
  The functions of \<^verbatim>\<open>adavae.py\<close> work on two-dimensional torch tensors of shape
  \<open>[batch, latent_dim]\<close>. A tensor is modelled with its shape and its rows; the entries
  are real numbers, so \<open>exp\<close>, \<open>log\<close> and the arithmetic are exact: rounding, overflow
  to infinity and NaN of the floating-point tensors are outside the model. Every
  exception the tensor operations can raise on two-dimensional inputs (a broadcasting
  failure, a reduction over an empty dimension, a mask of the wrong shape) is a value
  of the error type.
\<close>

subsection \<open>Errors\<close>

datatype error =
    KeyError string
  | RuntimeError
  | IndexError

fun bindE :: "'e + 'a \<Rightarrow> ('a \<Rightarrow> 'e + 'b) \<Rightarrow> 'e + 'b" where
  "bindE (Inl e) f = Inl e"
| "bindE (Inr x) f = f x"

subsection \<open>Two-dimensional tensors\<close>

datatype 'a tensor = Tensor (nrows: nat) (ncols: nat) (rows: "'a list list")

definition wf_tensor :: "'a tensor \<Rightarrow> bool" where
  "wf_tensor t \<longleftrightarrow> length (rows t) = nrows t \<and> list_all (\<lambda>r. length r = ncols t) (rows t)"

definition shaped :: "nat \<Rightarrow> nat \<Rightarrow> 'a tensor \<Rightarrow> bool" where
  "shaped r c t \<longleftrightarrow> wf_tensor t \<and> nrows t = r \<and> ncols t = c"

definition entry :: "'a tensor \<Rightarrow> nat \<Rightarrow> nat \<Rightarrow> 'a" where
  "entry t i j = rows t ! i ! j"

definition tabulate :: "nat \<Rightarrow> nat \<Rightarrow> (nat \<Rightarrow> nat \<Rightarrow> 'a) \<Rightarrow> 'a tensor" where
  "tabulate r c g = Tensor r c (map (\<lambda>i. map (g i) [0..<c]) [0..<r])"

text \<open>Elementwise methods (\<^verbatim>\<open>t.exp()\<close>, \<^verbatim>\<open>t.log()\<close>, \<^verbatim>\<open>t.reciprocal()\<close>, \<^verbatim>\<open>t.pow(2)\<close>)
  and operations with a Python scalar (\<^verbatim>\<open>t - 1\<close>, \<^verbatim>\<open>0.5 * t\<close>) keep the shape.\<close>

definition tensor_map :: "('a \<Rightarrow> 'b) \<Rightarrow> 'a tensor \<Rightarrow> 'b tensor" where
  "tensor_map f t = Tensor (nrows t) (ncols t) (map (map f) (rows t))"

text \<open>Broadcasting of one dimension: equal sizes, or one of them is 1; anything else
  raises a RuntimeError.\<close>

definition broadcast_dim :: "nat \<Rightarrow> nat \<Rightarrow> nat option" where
  "broadcast_dim m n =
     (if m = n then Some m else if m = 1 then Some n else if n = 1 then Some m else None)"

definition expand_list :: "nat \<Rightarrow> 'a list \<Rightarrow> 'a list" where
  "expand_list n xs = (if length xs = n then xs else replicate n (hd xs))"

definition expand :: "nat \<Rightarrow> nat \<Rightarrow> 'a tensor \<Rightarrow> 'a list list" where
  "expand r c t = expand_list r (map (expand_list c) (rows t))"

definition tensor_op2 :: "('a \<Rightarrow> 'b \<Rightarrow> 'c) \<Rightarrow> 'a tensor \<Rightarrow> 'b tensor \<Rightarrow> error + 'c tensor" where
  "tensor_op2 f a b =
     (case broadcast_dim (nrows a) (nrows b) of
        None \<Rightarrow> Inl RuntimeError
      | Some r \<Rightarrow>
         (case broadcast_dim (ncols a) (ncols b) of
            None \<Rightarrow> Inl RuntimeError
          | Some c \<Rightarrow> Inr (Tensor r c (map2 (map2 f) (expand r c a) (expand r c b)))))"

text \<open>\<^verbatim>\<open>t.max(axis=1).values\<close> and \<^verbatim>\<open>t.min(axis=1).values\<close>: one value per row, a
  one-dimensional tensor (a list). A reduction over a dimension of size 0 raises an
  IndexError.\<close>

definition reduce_axis1 :: "('a \<Rightarrow> 'a \<Rightarrow> 'a) \<Rightarrow> 'a tensor \<Rightarrow> error + 'a list" where
  "reduce_axis1 f t =
     (if ncols t = 0 then Inl IndexError
      else Inr (map (\<lambda>r. fold f (tl r) (hd r)) (rows t)))"

text \<open>\<^verbatim>\<open>threshs[:, None]\<close> turns a one-dimensional tensor of size \<open>n\<close> into one of shape
  \<open>[n, 1]\<close>.\<close>

definition index_none :: "'a list \<Rightarrow> 'a tensor" where
  "index_none xs = Tensor (length xs) 1 (map (\<lambda>x. [x]) xs)"

text \<open>Indexing with a boolean mask. \<^verbatim>\<open>t[mask]\<close> is the one-dimensional tensor of the
  entries of \<open>t\<close> at the true positions of the mask, in row-major order;
  \<^verbatim>\<open>t[mask] = vals\<close> writes the values to these positions, in the same order. A mask
  whose shape is not the shape of \<open>t\<close> raises an IndexError; values that are neither
  as many as the true positions nor a single one raise a RuntimeError.\<close>

definition getitem_mask :: "'a tensor \<Rightarrow> bool tensor \<Rightarrow> error + 'a list" where
  "getitem_mask t msk =
     (if nrows msk \<noteq> nrows t \<or> ncols msk \<noteq> ncols t then Inl IndexError
      else Inr (map snd (filter fst (zip (concat (rows msk)) (concat (rows t))))))"

fun put_masked :: "bool list \<Rightarrow> 'a list \<Rightarrow> 'a list \<Rightarrow> 'a list" where
  "put_masked (True # ms) (x # xs) (v # vs) = v # put_masked ms xs vs"
| "put_masked (False # ms) (x # xs) vs = x # put_masked ms xs vs"
| "put_masked ms xs vs = xs"

fun put_rows :: "bool list list \<Rightarrow> 'a list list \<Rightarrow> 'a list \<Rightarrow> 'a list list" where
  "put_rows (m # ms) (r # rs) vs =
     put_masked m r vs # put_rows ms rs (drop (length (filter id m)) vs)"
| "put_rows ms rs vs = rs"

definition setitem_mask :: "'a tensor \<Rightarrow> bool tensor \<Rightarrow> 'a list \<Rightarrow> error + 'a tensor" where
  "setitem_mask t msk vals =
     (if nrows msk \<noteq> nrows t \<or> ncols msk \<noteq> ncols t then Inl IndexError
      else let n = length (filter id (concat (rows msk))) in
        if length vals = n then Inr (Tensor (nrows t) (ncols t) (put_rows (rows msk) (rows t) vals))
        else if length vals = 1
        then Inr (Tensor (nrows t) (ncols t) (put_rows (rows msk) (rows t) (replicate n (hd vals))))
        else Inl RuntimeError)"

subsection \<open>Averaging functions\<close>

text \<open>
  \<^verbatim>\<open>z_var, z2_var = z_logvar.exp(), z2_logvar.exp()
  ave_var = (z_var + z2_var) * 0.5
  ave_mean = (z_mean + z2_mean) * 0.5
  return ave_mean, ave_var.log()\<close>
\<close>

definition compute_average_gvae ::
  "real tensor \<Rightarrow> real tensor \<Rightarrow> real tensor \<Rightarrow> real tensor \<Rightarrow> error + (real tensor \<times> real tensor)" where
  "compute_average_gvae z_mean z_logvar z2_mean z2_logvar =
     (let z_var = tensor_map exp z_logvar; z2_var = tensor_map exp z2_logvar in
      bindE (tensor_op2 (+) z_var z2_var) (\<lambda>sum_var.
      let ave_var = tensor_map (\<lambda>x. x * 0.5) sum_var in
      bindE (tensor_op2 (+) z_mean z2_mean) (\<lambda>sum_mean.
      let ave_mean = tensor_map (\<lambda>x. x * 0.5) sum_mean in
      Inr (ave_mean, tensor_map ln ave_var))))"

text \<open>
  \<^verbatim>\<open>z_var, z2_var = z_logvar.exp(), z2_logvar.exp()
  z_invvar, z2_invvar = z_var.reciprocal(), z2_var.reciprocal()
  ave_var = (z_invvar + z2_invvar).reciprocal()
  ave_mean = (z_mean * z_invvar + z2_mean * z2_invvar) * ave_var
  return ave_mean, ave_var.log()\<close>
\<close>

definition compute_average_ml_vae ::
  "real tensor \<Rightarrow> real tensor \<Rightarrow> real tensor \<Rightarrow> real tensor \<Rightarrow> error + (real tensor \<times> real tensor)" where
  "compute_average_ml_vae z_mean z_logvar z2_mean z2_logvar =
     (let z_var = tensor_map exp z_logvar; z2_var = tensor_map exp z2_logvar;
          z_invvar = tensor_map (\<lambda>x. 1 / x) z_var; z2_invvar = tensor_map (\<lambda>x. 1 / x) z2_var in
      bindE (tensor_op2 (+) z_invvar z2_invvar) (\<lambda>sum_invvar.
      let ave_var = tensor_map (\<lambda>x. 1 / x) sum_invvar in
      bindE (tensor_op2 (*) z_mean z_invvar) (\<lambda>w1.
      bindE (tensor_op2 (*) z2_mean z2_invvar) (\<lambda>w2.
      bindE (tensor_op2 (+) w1 w2) (\<lambda>w.
      bindE (tensor_op2 (*) w ave_var) (\<lambda>ave_mean.
      Inr (ave_mean, tensor_map ln ave_var)))))))"

subsection \<open>The per-element KL divergence of a pair\<close>

text \<open>
  \<^verbatim>\<open>return 0.5 * (z_logvar.exp() / z2_logvar.exp()
                   + (z2_mean - z_mean).pow(2) / z2_logvar.exp() - 1
                   + (z_logvar - z_logvar))\<close>
\<close>

definition kl_normal_loss_pair_elements ::
  "real tensor \<Rightarrow> real tensor \<Rightarrow> real tensor \<Rightarrow> real tensor \<Rightarrow> error + real tensor" where
  "kl_normal_loss_pair_elements z_mean z_logvar z2_mean z2_logvar =
     bindE (tensor_op2 (/) (tensor_map exp z_logvar) (tensor_map exp z2_logvar)) (\<lambda>ratio.
     bindE (tensor_op2 (-) z2_mean z_mean) (\<lambda>diff.
     bindE (tensor_op2 (/) (tensor_map (\<lambda>x. x ^ 2) diff) (tensor_map exp z2_logvar)) (\<lambda>sq.
     bindE (tensor_op2 (+) ratio sq) (\<lambda>s.
     bindE (tensor_op2 (-) z_logvar z_logvar) (\<lambda>dlog.
     bindE (tensor_op2 (+) (tensor_map (\<lambda>x. x - 1) s) dlog) (\<lambda>t.
     Inr (tensor_map (\<lambda>x. 0.5 * x) t)))))))"

text \<open>The entry the code computes at one position, and the entry the specification
  (and the comment above the return statement) asks for.\<close>

definition kl_elem :: "real \<Rightarrow> real \<Rightarrow> real \<Rightarrow> real \<Rightarrow> real" where
  "kl_elem m1 lv1 m2 lv2 =
     0.5 * (exp lv1 / exp lv2 + (m2 - m1) ^ 2 / exp lv2 - 1 + (lv1 - lv1))"

definition spec_kl_delta :: "real \<Rightarrow> real \<Rightarrow> real \<Rightarrow> real \<Rightarrow> real" where
  "spec_kl_delta m1 lv1 m2 lv2 =
     0.5 * (exp lv1 / exp lv2 + (m2 - m1) ^ 2 / exp lv2 - 1 + (lv2 - lv1))"

subsection \<open>Threshold and mask\<close>

text \<open>
  \<^verbatim>\<open>threshs = 0.5 * (kl_deltas.max(axis=1).values + kl_deltas.min(axis=1).values)
  return threshs[:, None]\<close>

  Both reductions run over the rows of the same tensor, so the two one-dimensional
  tensors have the same size and their sum is elementwise.
\<close>

definition estimate_kl_threshold :: "real tensor \<Rightarrow> error + real tensor" where
  "estimate_kl_threshold kl_deltas =
     bindE (reduce_axis1 max kl_deltas) (\<lambda>maxs.
     bindE (reduce_axis1 min kl_deltas) (\<lambda>mins.
     let threshs = map (\<lambda>x. 0.5 * x) (map2 (+) maxs mins) in
     Inr (index_none threshs)))"

text \<open>
  \<^verbatim>\<open>kl_deltas = kl_normal_loss_pair_elements(z_mean, z_logvar, z2_mean, z2_logvar)
  kl_threshs = estimate_kl_threshold(kl_deltas)
  unchanged_mask = kl_deltas < kl_threshs
  return kl_deltas, kl_threshs, unchanged_mask\<close>
\<close>

definition estimate_unchanged ::
  "real tensor \<Rightarrow> real tensor \<Rightarrow> real tensor \<Rightarrow> real tensor
     \<Rightarrow> error + (real tensor \<times> real tensor \<times> bool tensor)" where
  "estimate_unchanged z_mean z_logvar z2_mean z2_logvar =
     bindE (kl_normal_loss_pair_elements z_mean z_logvar z2_mean z2_logvar) (\<lambda>kl_deltas.
     bindE (estimate_kl_threshold kl_deltas) (\<lambda>kl_threshs.
     bindE (tensor_op2 (<) kl_deltas kl_threshs) (\<lambda>unchanged_mask.
     Inr (kl_deltas, kl_threshs, unchanged_mask))))"

subsection \<open>The class AdaVaeLoss\<close>

type_synonym average_fn =
  "real tensor \<Rightarrow> real tensor \<Rightarrow> real tensor \<Rightarrow> real tensor \<Rightarrow> error + (real tensor \<times> real tensor)"

record AdaVaeLoss =
  beta :: real
  compute_average :: average_fn

definition AVERAGING_FUNCTIONS :: "(string \<times> average_fn) list" where
  "AVERAGING_FUNCTIONS =
     [(''ml-vae'', compute_average_ml_vae),
      (''gvae'', compute_average_gvae)]"

text \<open>Python's \<^verbatim>\<open>repr\<close> of a string, which the f-string \<^verbatim>\<open>{average_mode=}\<close> and the
  printing of a set of strings use: single quotes, unless the string holds a single
  quote and no double quote; the quote and the backslash escaped; tab, newline and
  carriage return as \<^verbatim>\<open>\t\<close>, \<^verbatim>\<open>\n\<close>, \<^verbatim>\<open>\r\<close>; the other ASCII control characters
  in hexadecimal. Characters beyond ASCII are copied (taken to be printable).\<close>

definition hex_digit :: "nat \<Rightarrow> char" where
  "hex_digit n = ''0123456789abcdef'' ! (n mod 16)"

definition repr_char :: "char \<Rightarrow> char \<Rightarrow> string" where
  "repr_char q ch =
     (if ch = q \<or> ch = CHR 0x5C then [CHR 0x5C, ch]
      else if ch = CHR 0x09 then [CHR 0x5C, CHR ''t'']
      else if ch = CHR 0x0A then [CHR 0x5C, CHR ''n'']
      else if ch = CHR 0x0D then [CHR 0x5C, CHR ''r'']
      else if of_char ch < (32::nat) \<or> ch = CHR 0x7F
      then [CHR 0x5C, CHR ''x'', hex_digit (of_char ch div 16), hex_digit (of_char ch)]
      else [ch])"

definition py_repr :: "string \<Rightarrow> string" where
  "py_repr s =
     (let q = (if CHR 0x27 \<in> set s \<and> CHR 0x22 \<notin> set s then CHR 0x22 else CHR 0x27)
      in [q] @ concat (map (repr_char q) s) @ [q])"

fun join :: "string \<Rightarrow> string list \<Rightarrow> string" where
  "join sep [] = []"
| "join sep [x] = x"
| "join sep (x # y # ys) = x @ sep @ join sep (y # ys)"

text \<open>The text of a non-empty set of strings whose iteration yields \<open>ks\<close>.\<close>

definition set_str :: "string list \<Rightarrow> string" where
  "set_str ks = ''{'' @ join '', '' (map py_repr ks) @ ''}''"

text \<open>Modelled from the spec: \<^verbatim>\<open>BetaVaeLoss.__init__\<close>
  (disent/frameworks/unsupervised/betavae.py) is not among the sources. The spec gives
  construction no error other than the unknown averaging mode and has the loss scaled
  by the configured \<open>beta\<close>, so the base initialiser stores \<open>beta\<close> and returns.\<close>

definition BetaVaeLoss_init :: "real \<Rightarrow> error + real" where
  "BetaVaeLoss_init b = Inr b"

text \<open>
  \<^verbatim>\<open>super().__init__(beta=beta)
  if average_mode not in AdaVaeLoss.AVERAGING_FUNCTIONS:
      raise KeyError(f'Unsupported {average_mode=} must be one of: {set(AdaVaeLoss.AVERAGING_FUNCTIONS.keys())}')
  self.compute_average = AdaVaeLoss.AVERAGING_FUNCTIONS[average_mode]\<close>

  The order in which Python iterates over the set of keys depends on the hashes of the
  strings; it is the parameter \<open>key_order\<close>.
\<close>

definition AdaVaeLoss_init :: "string list \<Rightarrow> real \<Rightarrow> string \<Rightarrow> error + AdaVaeLoss" where
  "AdaVaeLoss_init key_order b average_mode =
     bindE (BetaVaeLoss_init b) (\<lambda>self_beta.
     case map_of AVERAGING_FUNCTIONS average_mode of
       None \<Rightarrow> Inl (KeyError (''Unsupported average_mode='' @ py_repr average_mode
                               @ '' must be one of: '' @ set_str key_order))
     | Some f \<Rightarrow> Inr \<lparr>beta = self_beta, compute_average = f\<rparr>)"

text \<open>
  \<^verbatim>\<open>kl_deltas, kl_threshs, ave_mask = estimate_unchanged(z_mean, z_logvar, z2_mean, z2_logvar)
  ave_mu, ave_logvar = self.compute_average(z_mean, z_logvar, z2_mean, z2_logvar)
  z_mean[ave_mask], z_logvar[ave_mask] = ave_mu[ave_mask], ave_logvar[ave_mask]
  z2_mean[ave_mask], z2_logvar[ave_mask] = ave_mu[ave_mask], ave_logvar[ave_mask]
  return z_mean, z_logvar, z2_mean, z2_logvar\<close>

  The method receives the second posterior as exactly two positional arguments and no
  keyword argument. The four tensors are distinct objects: the in-place writes are
  modelled by returning the four updated tensors. Each assignment evaluates its right
  side first and then writes its targets from left to right.
\<close>

definition intercept_z ::
  "AdaVaeLoss \<Rightarrow> real tensor \<Rightarrow> real tensor \<Rightarrow> real tensor \<Rightarrow> real tensor
     \<Rightarrow> error + (real tensor \<times> real tensor \<times> real tensor \<times> real tensor)" where
  "intercept_z self z_mean z_logvar z2_mean z2_logvar =
     bindE (estimate_unchanged z_mean z_logvar z2_mean z2_logvar) (\<lambda>(kl_deltas, kl_threshs, ave_mask).
     bindE (compute_average self z_mean z_logvar z2_mean z2_logvar) (\<lambda>(ave_mu, ave_logvar).
     bindE (getitem_mask ave_mu ave_mask) (\<lambda>mu_vals.
     bindE (getitem_mask ave_logvar ave_mask) (\<lambda>logvar_vals.
     bindE (setitem_mask z_mean ave_mask mu_vals) (\<lambda>z_mean'.
     bindE (setitem_mask z_logvar ave_mask logvar_vals) (\<lambda>z_logvar'.
     bindE (getitem_mask ave_mu ave_mask) (\<lambda>mu_vals2.
     bindE (getitem_mask ave_logvar ave_mask) (\<lambda>logvar_vals2.
     bindE (setitem_mask z2_mean ave_mask mu_vals2) (\<lambda>z2_mean'.
     bindE (setitem_mask z2_logvar ave_mask logvar_vals2) (\<lambda>z2_logvar'.
     Inr (z_mean', z_logvar', z2_mean', z2_logvar')))))))))))"

section \<open>Properties\<close>

subsection \<open>Shapes and positions\<close>

lemma shaped_tabulate: "shaped r c (tabulate r c g)"
  by (simp add: shaped_def wf_tensor_def tabulate_def list_all_iff)

lemma entry_tabulate: "i < r \<Longrightarrow> j < c \<Longrightarrow> entry (tabulate r c g) i j = g i j"
  by (simp add: entry_def tabulate_def)

lemma shaped_is_tabulate:
  assumes "shaped r c t"
  shows "t = tabulate r c (entry t)"
proof -
  have len: "length (rows t) = r" and nr: "nrows t = r" and nc: "ncols t = c"
    using assms by (simp_all add: shaped_def wf_tensor_def)
  have "\<forall>i<length (rows t). length (rows t ! i) = ncols t"
    using assms unfolding shaped_def wf_tensor_def list_all_length by blast
  then have rowlen: "length (rows t ! i) = c" if "i < r" for i
    using that len nc by blast
  have "rows t = map (\<lambda>i. map (entry t i) [0..<c]) [0..<r]"
  proof (rule nth_equalityI)
    show "length (rows t) = length (map (\<lambda>i. map (entry t i) [0..<c]) [0..<r])"
      using len by simp
  next
    fix i assume "i < length (rows t)"
    then have i: "i < r" using len by simp
    have "rows t ! i = map (entry t i) [0..<c]"
      by (rule nth_equalityI) (simp_all add: rowlen [OF i] entry_def)
    then show "rows t ! i = map (\<lambda>i. map (entry t i) [0..<c]) [0..<r] ! i"
      using i by simp
  qed
  then show ?thesis
    using nr nc by (cases t) (simp add: tabulate_def)
qed

lemma tabulate_cong:
  "(\<And>i j. i < r \<Longrightarrow> j < c \<Longrightarrow> g i j = h i j) \<Longrightarrow> tabulate r c g = tabulate r c h"
  by (simp add: tabulate_def)

lemma tensor_map_tabulate: "tensor_map f (tabulate r c g) = tabulate r c (\<lambda>i j. f (g i j))"
  by (simp add: tensor_map_def tabulate_def comp_def)

lemma nrows_tabulate: "nrows (tabulate r c g) = r"
  by (simp add: tabulate_def)

lemma ncols_tabulate: "ncols (tabulate r c g) = c"
  by (simp add: tabulate_def)

lemma expand_tabulate: "expand r c (tabulate r c g) = map (\<lambda>i. map (g i) [0..<c]) [0..<r]"
  by (simp add: expand_def expand_list_def tabulate_def comp_def)

lemma tensor_op2_tabulate:
  "tensor_op2 f (tabulate r c g) (tabulate r c h) = Inr (tabulate r c (\<lambda>i j. f (g i j) (h i j)))"
proof -
  have "map2 (map2 f) (map (\<lambda>i. map (g i) [0..<c]) [0..<r]) (map (\<lambda>i. map (h i) [0..<c]) [0..<r])
        = map (\<lambda>i. map (\<lambda>j. f (g i j) (h i j)) [0..<c]) [0..<r]"
    by (simp only: map2_map_map)
  then show ?thesis
    by (simp add: tensor_op2_def broadcast_dim_def expand_tabulate nrows_tabulate ncols_tabulate)
       (simp add: tabulate_def)
qed

lemma kl_normal_loss_pair_elements_tabulate:
  "kl_normal_loss_pair_elements (tabulate r c m1) (tabulate r c lv1) (tabulate r c m2) (tabulate r c lv2)
     = Inr (tabulate r c (\<lambda>i j. kl_elem (m1 i j) (lv1 i j) (m2 i j) (lv2 i j)))"
  by (simp add: kl_normal_loss_pair_elements_def tensor_map_tabulate tensor_op2_tabulate kl_elem_def)

lemma kl_normal_loss_pair_elements_shaped:
  assumes "shaped r c z_mean" "shaped r c z_logvar" "shaped r c z2_mean" "shaped r c z2_logvar"
  shows "kl_normal_loss_pair_elements z_mean z_logvar z2_mean z2_logvar
     = Inr (tabulate r c (\<lambda>i j. kl_elem (entry z_mean i j) (entry z_logvar i j) (entry z2_mean i j) (entry z2_logvar i j)))"
proof -
  note eqs = assms [THEN shaped_is_tabulate]
  show ?thesis
    by (subst eqs(1), subst eqs(2), subst eqs(3), subst eqs(4))
       (rule kl_normal_loss_pair_elements_tabulate)
qed

subsection \<open>The averaging functions\<close>

lemma compute_average_gvae_tabulate:
  "compute_average_gvae (tabulate r c m1) (tabulate r c lv1) (tabulate r c m2) (tabulate r c lv2)
     = Inr (tabulate r c (\<lambda>i j. (m1 i j + m2 i j) * 0.5),
            tabulate r c (\<lambda>i j. ln ((exp (lv1 i j) + exp (lv2 i j)) * 0.5)))"
  by (simp add: compute_average_gvae_def Let_def tensor_map_tabulate tensor_op2_tabulate)

lemma compute_average_ml_vae_tabulate:
  "compute_average_ml_vae (tabulate r c m1) (tabulate r c lv1) (tabulate r c m2) (tabulate r c lv2)
     = Inr (tabulate r c (\<lambda>i j. (m1 i j * (1 / exp (lv1 i j)) + m2 i j * (1 / exp (lv2 i j)))
                                  * (1 / (1 / exp (lv1 i j) + 1 / exp (lv2 i j)))),
            tabulate r c (\<lambda>i j. ln (1 / (1 / exp (lv1 i j) + 1 / exp (lv2 i j)))))"
  by (simp add: compute_average_ml_vae_def Let_def tensor_map_tabulate tensor_op2_tabulate)

text \<open>
  C3: for two posteriors of the same shape, \<open>compute_average_gvae\<close> returns at every
  position the mean \<open>(mean1 + mean2) / 2\<close> and a log-variance whose exponential is the
  arithmetic mean \<open>(variance1 + variance2) / 2\<close> of the two variances
  \<open>variance_i = exp logvar_i\<close>.
\<close>

theorem compute_average_gvae_arithmetic_mean:
  assumes "shaped r c z_mean" "shaped r c z_logvar" "shaped r c z2_mean" "shaped r c z2_logvar"
  shows "\<exists>ave_mean ave_logvar.
           compute_average_gvae z_mean z_logvar z2_mean z2_logvar = Inr (ave_mean, ave_logvar)
         \<and> shaped r c ave_mean \<and> shaped r c ave_logvar
         \<and> (\<forall>i<r. \<forall>j<c.
               entry ave_mean i j = (entry z_mean i j + entry z2_mean i j) / 2
             \<and> exp (entry ave_logvar i j)
                 = (exp (entry z_logvar i j) + exp (entry z2_logvar i j)) / 2)"
proof -
  define m1 lv1 m2 lv2
    where "m1 = entry z_mean" and "lv1 = entry z_logvar"
      and "m2 = entry z2_mean" and "lv2 = entry z2_logvar"
  have tab: "z_mean = tabulate r c m1" "z_logvar = tabulate r c lv1"
    "z2_mean = tabulate r c m2" "z2_logvar = tabulate r c lv2"
    unfolding m1_def lv1_def m2_def lv2_def by (rule shaped_is_tabulate, fact)+
  have pos: "0 < (exp (lv1 i j) + exp (lv2 i j)) * 0.5" for i j
    by (simp add: add_pos_pos)
  show ?thesis
    unfolding tab compute_average_gvae_tabulate
    using pos by (simp add: shaped_tabulate entry_tabulate)
qed

theorem compute_average_gvae_arithmetic_mean_witness:
  "shaped 1 2 (Tensor 1 2 [[0, 0::real]]) \<and> shaped 1 2 (Tensor 1 2 [[0, 5::real]])
   \<and> (\<exists>ave_mean ave_logvar.
        compute_average_gvae (Tensor 1 2 [[0, 0]]) (Tensor 1 2 [[0, 0]])
                             (Tensor 1 2 [[0, 5]]) (Tensor 1 2 [[0, 0]]) = Inr (ave_mean, ave_logvar)
        \<and> entry ave_mean 0 1 = 5 / 2 \<and> exp (entry ave_logvar 0 1) = 1)"
proof -
  have a: "shaped 1 2 (Tensor 1 2 [[0, 0::real]])" and b: "shaped 1 2 (Tensor 1 2 [[0, 5::real]])"
    by (simp_all add: shaped_def wf_tensor_def)
  from compute_average_gvae_arithmetic_mean [OF a a b a] a b show ?thesis
    by (auto simp add: entry_def numeral_2_eq_2 All_less_Suc)
qed

text \<open>
  C4: for two posteriors of the same shape, \<open>compute_average_ml_vae\<close> returns at every
  position a log-variance whose exponential is \<open>1 / (1 / variance1 + 1 / variance2)\<close>
  and the mean \<open>(mean1 * (1 / variance1) + mean2 * (1 / variance2))\<close> times that
  variance.
\<close>

theorem compute_average_ml_vae_product:
  assumes "shaped r c z_mean" "shaped r c z_logvar" "shaped r c z2_mean" "shaped r c z2_logvar"
  shows "\<exists>ave_mean ave_logvar.
           compute_average_ml_vae z_mean z_logvar z2_mean z2_logvar = Inr (ave_mean, ave_logvar)
         \<and> shaped r c ave_mean \<and> shaped r c ave_logvar
         \<and> (\<forall>i<r. \<forall>j<c.
               exp (entry ave_logvar i j)
                 = 1 / (1 / exp (entry z_logvar i j) + 1 / exp (entry z2_logvar i j))
             \<and> entry ave_mean i j
                 = (entry z_mean i j * (1 / exp (entry z_logvar i j))
                    + entry z2_mean i j * (1 / exp (entry z2_logvar i j)))
                   * exp (entry ave_logvar i j))"
proof -
  define m1 lv1 m2 lv2
    where "m1 = entry z_mean" and "lv1 = entry z_logvar"
      and "m2 = entry z2_mean" and "lv2 = entry z2_logvar"
  have tab: "z_mean = tabulate r c m1" "z_logvar = tabulate r c lv1"
    "z2_mean = tabulate r c m2" "z2_logvar = tabulate r c lv2"
    unfolding m1_def lv1_def m2_def lv2_def by (rule shaped_is_tabulate, fact)+
  have pos: "0 < 1 / (1 / exp (lv1 i j) + 1 / exp (lv2 i j))" for i j
    by (simp add: add_pos_pos)
  show ?thesis
    unfolding tab compute_average_ml_vae_tabulate
    using pos by (simp add: shaped_tabulate entry_tabulate)
qed

theorem compute_average_ml_vae_product_witness:
  "shaped 1 2 (Tensor 1 2 [[0, 0::real]]) \<and> shaped 1 2 (Tensor 1 2 [[0, 5::real]])
   \<and> (\<exists>ave_mean ave_logvar.
        compute_average_ml_vae (Tensor 1 2 [[0, 0]]) (Tensor 1 2 [[0, 0]])
                               (Tensor 1 2 [[0, 5]]) (Tensor 1 2 [[0, 0]]) = Inr (ave_mean, ave_logvar)
        \<and> exp (entry ave_logvar 0 1) = 1 / 2 \<and> entry ave_mean 0 1 = 5 / 2)"
proof -
  have a: "shaped 1 2 (Tensor 1 2 [[0, 0::real]])" and b: "shaped 1 2 (Tensor 1 2 [[0, 5::real]])"
    by (simp_all add: shaped_def wf_tensor_def)
  from compute_average_ml_vae_product [OF a a b a] a b show ?thesis
    by (auto simp add: entry_def numeral_2_eq_2 All_less_Suc)
qed

lemma product_variance_le:
  fixes a b :: real
  assumes "0 < a" "0 < b"
  shows "1 / (1 / a + 1 / b) \<le> min a b"
proof -
  have eq: "1 / (1 / a + 1 / b) = a * b / (a + b)"
    using assms by (simp add: field_simps)
  have "a * b / (a + b) \<le> a" "a * b / (a + b) \<le> b"
    using assms by (simp_all add: field_simps)
  then show ?thesis
    unfolding eq by simp
qed

text \<open>
  C5: for two posteriors of the same shape, the variance that \<open>compute_average_ml_vae\<close>
  produces (the exponential of the returned log-variance) is at every position at most
  the smaller of the two input variances.
\<close>

theorem compute_average_ml_vae_variance_le_min:
  assumes "shaped r c z_mean" "shaped r c z_logvar" "shaped r c z2_mean" "shaped r c z2_logvar"
  shows "\<exists>ave_mean ave_logvar.
           compute_average_ml_vae z_mean z_logvar z2_mean z2_logvar = Inr (ave_mean, ave_logvar)
         \<and> (\<forall>i<r. \<forall>j<c.
               exp (entry ave_logvar i j)
                 \<le> min (exp (entry z_logvar i j)) (exp (entry z2_logvar i j)))"
proof -
  define m1 lv1 m2 lv2
    where "m1 = entry z_mean" and "lv1 = entry z_logvar"
      and "m2 = entry z2_mean" and "lv2 = entry z2_logvar"
  have tab: "z_mean = tabulate r c m1" "z_logvar = tabulate r c lv1"
    "z2_mean = tabulate r c m2" "z2_logvar = tabulate r c lv2"
    unfolding m1_def lv1_def m2_def lv2_def by (rule shaped_is_tabulate, fact)+
  have pos: "0 < 1 / (1 / exp (lv1 i j) + 1 / exp (lv2 i j))" for i j
    by (simp add: add_pos_pos)
  have le: "1 / (1 / exp (lv1 i j) + 1 / exp (lv2 i j)) \<le> min (exp (lv1 i j)) (exp (lv2 i j))" for i j
    by (rule product_variance_le) simp_all
  have el: "exp (ln (1 / (1 / exp (lv1 i j) + 1 / exp (lv2 i j))))
              \<le> min (exp (lv1 i j)) (exp (lv2 i j))" for i j
    using pos [of i j] le [of i j] by (simp only: exp_ln)
  show ?thesis
    unfolding tab compute_average_ml_vae_tabulate
    apply (rule exI, rule exI, rule conjI, rule refl)
    apply (intro allI impI)
    apply (simp only: entry_tabulate)
    apply (rule el)
    done
qed

theorem compute_average_ml_vae_variance_le_min_witness:
  "shaped 1 2 (Tensor 1 2 [[0, 0::real]]) \<and> shaped 1 2 (Tensor 1 2 [[0, 5::real]])
   \<and> (\<exists>ave_mean ave_logvar.
        compute_average_ml_vae (Tensor 1 2 [[0, 0]]) (Tensor 1 2 [[0, 5]])
                               (Tensor 1 2 [[0, 5]]) (Tensor 1 2 [[0, 0]]) = Inr (ave_mean, ave_logvar)
        \<and> exp (entry ave_logvar 0 0) \<le> 1 \<and> exp (entry ave_logvar 0 1) \<le> 1)"
proof -
  have a: "shaped 1 2 (Tensor 1 2 [[0, 0::real]])" and b: "shaped 1 2 (Tensor 1 2 [[0, 5::real]])"
    by (simp_all add: shaped_def wf_tensor_def)
  from compute_average_ml_vae_variance_le_min [OF a b b a] a b show ?thesis
    by (auto simp add: entry_def numeral_2_eq_2 All_less_Suc)
qed

subsection \<open>The KL deltas\<close>

text \<open>
  C7: applied to two copies of one posterior, \<open>kl_normal_loss_pair_elements\<close> returns
  zero at every position.
\<close>

theorem kl_identical_posteriors_zero:
  assumes "shaped r c z_mean" "shaped r c z_logvar"
  shows "\<exists>kl_deltas. kl_normal_loss_pair_elements z_mean z_logvar z_mean z_logvar = Inr kl_deltas
          \<and> shaped r c kl_deltas \<and> (\<forall>i<r. \<forall>j<c. entry kl_deltas i j = 0)"
  unfolding kl_normal_loss_pair_elements_shaped [OF assms assms]
  by (simp add: shaped_tabulate entry_tabulate kl_elem_def)

theorem kl_identical_posteriors_zero_witness:
  "shaped 1 2 (Tensor 1 2 [[0, 5::real]]) \<and> shaped 1 2 (Tensor 1 2 [[0, 1::real]])
   \<and> (\<exists>kl_deltas.
        kl_normal_loss_pair_elements (Tensor 1 2 [[0, 5]]) (Tensor 1 2 [[0, 1]])
                                     (Tensor 1 2 [[0, 5]]) (Tensor 1 2 [[0, 1]]) = Inr kl_deltas
        \<and> entry kl_deltas 0 0 = 0 \<and> entry kl_deltas 0 1 = 0)"
proof -
  have a: "shaped 1 2 (Tensor 1 2 [[0, 5::real]])" and b: "shaped 1 2 (Tensor 1 2 [[0, 1::real]])"
    by (simp_all add: shaped_def wf_tensor_def)
  from kl_identical_posteriors_zero [OF a b] a b show ?thesis
    by (auto simp add: numeral_2_eq_2 All_less_Suc)
qed

lemma kl_normal_loss_pair_elements_1_1:
  "kl_normal_loss_pair_elements (Tensor 1 1 [[m1]]) (Tensor 1 1 [[lv1]])
       (Tensor 1 1 [[m2]]) (Tensor 1 1 [[lv2]]) = Inr (Tensor 1 1 [[kl_elem m1 lv1 m2 lv2]])"
  by (simp add: kl_normal_loss_pair_elements_def tensor_op2_def tensor_map_def broadcast_dim_def
      expand_def expand_list_def kl_elem_def)

text \<open>
  C1: the specification asks for the last term \<open>logvar2 - logvar1\<close>; the code subtracts
  \<open>z_logvar\<close> from itself. For the means 0 and 0 and the log-variances 0 and 1 the code
  returns \<open>(1 / e - 1) / 2\<close>, where the formula of the specification gives
  \<open>(1 / e) / 2\<close>.
\<close>

theorem kl_pair_elements_ignores_logvar_difference:
  "\<exists>kl_deltas.
      kl_normal_loss_pair_elements (Tensor 1 1 [[0]]) (Tensor 1 1 [[0]])
                                   (Tensor 1 1 [[0]]) (Tensor 1 1 [[1]]) = Inr kl_deltas
    \<and> entry kl_deltas 0 0 = (1 / exp 1 - 1) / 2
    \<and> spec_kl_delta 0 0 0 1 = (1 / exp 1) / 2
    \<and> entry kl_deltas 0 0 \<noteq> spec_kl_delta 0 0 0 1"
  unfolding kl_normal_loss_pair_elements_1_1
  by (simp add: kl_elem_def spec_kl_delta_def entry_def)

text \<open>
  C10: the KL deltas are not non-negative at every position: there are posteriors of the
  same shape, with equal means and \<open>logvar1 < logvar2\<close>, for which
  \<open>kl_normal_loss_pair_elements\<close> returns a negative entry.
\<close>

theorem kl_deltas_not_pointwise_nonnegative:
  "\<exists>z_mean z_logvar z2_mean z2_logvar kl_deltas.
      shaped 1 1 z_mean \<and> shaped 1 1 z_logvar \<and> shaped 1 1 z2_mean \<and> shaped 1 1 z2_logvar
    \<and> entry z_mean 0 0 = entry z2_mean 0 0 \<and> entry z_logvar 0 0 < entry z2_logvar 0 0
    \<and> kl_normal_loss_pair_elements z_mean z_logvar z2_mean z2_logvar = Inr kl_deltas
    \<and> entry kl_deltas 0 0 < 0"
  apply (rule exI [of _ "Tensor 1 1 [[3]]"])
  apply (rule exI [of _ "Tensor 1 1 [[-1]]"])
  apply (rule exI [of _ "Tensor 1 1 [[3]]"])
  apply (rule exI [of _ "Tensor 1 1 [[0]]"])
  apply (rule exI [of _ "Tensor 1 1 [[kl_elem 3 (-1) 3 0]]"])
  apply (simp only: kl_normal_loss_pair_elements_1_1)
  apply (simp add: shaped_def wf_tensor_def entry_def kl_elem_def)
  done
subsection \<open>The threshold\<close>

lemma estimate_kl_threshold_rows:
  assumes "ncols t \<noteq> 0"
  shows "estimate_kl_threshold t
     = Inr (Tensor (length (rows t)) 1
         (map (\<lambda>row. [0.5 * (fold max (tl row) (hd row) + fold min (tl row) (hd row))]) (rows t)))"
proof -
  have "map (\<lambda>x. [(case x of (u, v) \<Rightarrow> u + v) / 2]) (zip (map mx xs) (map mn xs))
          = map (\<lambda>row. [(mx row + mn row) / 2]) xs" for mx mn :: "real list \<Rightarrow> real" and xs
    by (induction xs) simp_all
  then show ?thesis
    using assms
    by (simp add: estimate_kl_threshold_def reduce_axis1_def index_none_def Let_def comp_def)
qed

lemma fold_max_row: "row \<noteq> [] \<Longrightarrow> fold max (tl row) (hd row) = Max (set row)"
  using Max.set_eq_fold [of "hd row" "tl row"] by simp

lemma fold_min_row: "row \<noteq> [] \<Longrightarrow> fold min (tl row) (hd row) = Min (set row)"
  using Min.set_eq_fold [of "hd row" "tl row"] by simp

lemma midpoint_between:
  fixes lo hi :: real
  assumes "lo \<le> hi"
  shows "lo \<le> 0.5 * (hi + lo)" and "0.5 * (hi + lo) \<le> hi"
  using assms by simp_all

lemma shaped_row_length:
  assumes "shaped r c t" "i < r"
  shows "length (rows t ! i) = c"
proof -
  have "\<forall>i<length (rows t). length (rows t ! i) = ncols t"
    using assms(1) unfolding shaped_def wf_tensor_def list_all_length by blast
  moreover have "length (rows t) = r" "ncols t = c"
    using assms(1) by (simp_all add: shaped_def wf_tensor_def)
  ultimately show ?thesis
    using assms(2) by simp
qed

text \<open>
  C6: for KL deltas of shape \<open>[batch, latent_dim]\<close> with \<open>latent_dim \<ge> 1\<close>,
  \<open>estimate_kl_threshold\<close> returns a tensor of shape \<open>[batch, 1]\<close> whose entry in each
  row is half the sum of the maximum and the minimum of that row of the deltas, and
  lies between that minimum and that maximum.
\<close>

theorem estimate_kl_threshold_midpoint:
  assumes "shaped b d kl_deltas" and "1 \<le> d"
  shows "\<exists>threshs. estimate_kl_threshold kl_deltas = Inr threshs
          \<and> shaped b 1 threshs
          \<and> (\<forall>i<b. entry threshs i 0
                       = 0.5 * (Max (set (rows kl_deltas ! i)) + Min (set (rows kl_deltas ! i)))
                   \<and> Min (set (rows kl_deltas ! i)) \<le> entry threshs i 0
                   \<and> entry threshs i 0 \<le> Max (set (rows kl_deltas ! i)))"
proof -
  have len: "length (rows kl_deltas) = b" and nc: "ncols kl_deltas \<noteq> 0"
    using assms by (simp_all add: shaped_def wf_tensor_def)
  let ?mid = "\<lambda>row::real list. 0.5 * (fold max (tl row) (hd row) + fold min (tl row) (hd row))"
  let ?t = "Tensor b 1 (map (\<lambda>row. [?mid row]) (rows kl_deltas))"
  have res: "estimate_kl_threshold kl_deltas = Inr ?t"
    using estimate_kl_threshold_rows [OF nc] len by simp
  have sh: "shaped b 1 ?t"
    using len by (simp add: shaped_def wf_tensor_def list_all_iff)
  have pos: "entry ?t i 0 = 0.5 * (Max (set (rows kl_deltas ! i)) + Min (set (rows kl_deltas ! i)))
           \<and> Min (set (rows kl_deltas ! i)) \<le> entry ?t i 0
           \<and> entry ?t i 0 \<le> Max (set (rows kl_deltas ! i))" if "i < b" for i
  proof -
    let ?row = "rows kl_deltas ! i"
    have "length ?row = d"
      using assms(1) that by (rule shaped_row_length)
    then have ne: "?row \<noteq> []"
      using assms(2) by auto
    have e: "entry ?t i 0 = 0.5 * (Max (set ?row) + Min (set ?row))"
      using that len by (simp add: entry_def fold_max_row [OF ne] fold_min_row [OF ne])
    have "Min (set ?row) \<le> Max (set ?row)"
      using ne by (simp add: Min_le_iff)
    from midpoint_between [OF this] e show ?thesis
      by simp
  qed
  from res sh pos show ?thesis
    by blast
qed

theorem estimate_kl_threshold_midpoint_witness:
  "shaped 1 2 (Tensor 1 2 [[0, 25 / 2 :: real]]) \<and> (1::nat) \<le> 2
   \<and> (\<exists>threshs. estimate_kl_threshold (Tensor 1 2 [[0, 25 / 2]]) = Inr threshs
         \<and> shaped 1 1 threshs \<and> entry threshs 0 0 = 25 / 4)"
proof -
  have a: "shaped 1 2 (Tensor 1 2 [[0, 25 / 2 :: real]])"
    by (simp add: shaped_def wf_tensor_def)
  have d: "(1::nat) \<le> 2"
    by simp
  from estimate_kl_threshold_midpoint [OF a d] a d show ?thesis
    by auto
qed
subsection \<open>Masked writes and the interception\<close>

lemma put_masked_select:
  "put_masked (map p js) (map x js) (map snd (filter fst (zip (map p js) (map u js))) @ rest)
     = map (\<lambda>j. if p j then u j else x j) js"
  by (induction js) simp_all

lemma count_select:
  "length (map snd (filter fst (zip (map p js) (map u js)))) = length (filter id (map p js))"
  by (induction js) simp_all

lemma put_rows_select:
  "put_rows (map (\<lambda>i. map (p i) js) is) (map (\<lambda>i. map (x i) js) is)
      (map snd (filter fst (zip (concat (map (\<lambda>i. map (p i) js) is))
                                (concat (map (\<lambda>i. map (u i) js) is)))) @ rest)
     = map (\<lambda>i. map (\<lambda>j. if p i j then u i j else x i j) js) is"
proof (induction "is" arbitrary: rest)
  case Nil
  show ?case by simp
next
  case (Cons i "is")
  let ?sel = "map snd (filter fst (zip (map (p i) js) (map (u i) js)))"
  let ?sels = "map snd (filter fst (zip (concat (map (\<lambda>i. map (p i) js) is))
                                       (concat (map (\<lambda>i. map (u i) js) is))))"
  have split: "map snd (filter fst (zip (concat (map (\<lambda>i. map (p i) js) (i # is)))
                                (concat (map (\<lambda>i. map (u i) js) (i # is))))) @ rest
               = ?sel @ (?sels @ rest)"
    by simp
  have dr: "drop (length (filter id (map (p i) js))) (?sel @ (?sels @ rest)) = ?sels @ rest"
    using count_select [of "p i" js "u i"] by simp
  show ?case
    unfolding split
    by (simp only: list.map put_rows.simps put_masked_select dr Cons.IH)
qed

lemma length_concat_rows:
  "length (concat (map (\<lambda>i. map (f i) js) is)) = length is * length js"
  by (induction "is") simp_all

lemma count_select_general:
  "length ms = length us \<Longrightarrow> length (filter fst (zip ms us)) = length (filter id ms)"
  by (induction ms us rule: list_induct2) simp_all

lemma getitem_mask_tabulate:
  "getitem_mask (tabulate r c u) (tabulate r c p)
     = Inr (map snd (filter fst (zip (concat (rows (tabulate r c p))) (concat (rows (tabulate r c u))))))"
  by (simp add: getitem_mask_def nrows_tabulate ncols_tabulate)

lemma setitem_mask_tabulate:
  "setitem_mask (tabulate r c x) (tabulate r c p)
      (map snd (filter fst (zip (concat (rows (tabulate r c p))) (concat (rows (tabulate r c u))))))
     = Inr (tabulate r c (\<lambda>i j. if p i j then u i j else x i j))"
proof -
  let ?P = "map (\<lambda>i. map (p i) [0..<c]) [0..<r]"
  let ?U = "map (\<lambda>i. map (u i) [0..<c]) [0..<r]"
  let ?X = "map (\<lambda>i. map (x i) [0..<c]) [0..<r]"
  let ?vals = "map snd (filter fst (zip (concat ?P) (concat ?U)))"
  have "length (concat ?P) = length (concat ?U)"
    by (simp only: length_concat_rows)
  then have n: "length ?vals = length (filter id (concat ?P))"
    by (simp add: count_select_general)
  have put: "put_rows ?P ?X ?vals = map (\<lambda>i. map (\<lambda>j. if p i j then u i j else x i j) [0..<c]) [0..<r]"
    using put_rows_select [of p "[0..<c]" "[0..<r]" x u "[]"] by simp
  have r: "rows (tabulate r c g) = map (\<lambda>i. map (g i) [0..<c]) [0..<r]" for g :: "nat \<Rightarrow> nat \<Rightarrow> 'b"
    by (simp add: tabulate_def)
  show ?thesis
    unfolding setitem_mask_def r nrows_tabulate ncols_tabulate Let_def
    by (simp only: n put refl if_True if_False simp_thms) (simp add: tabulate_def)
qed

lemma tensor_op2_broadcast_col:
  assumes "1 \<le> c"
  shows "tensor_op2 f (tabulate r c g) (tabulate r 1 h)
     = Inr (tabulate r c (\<lambda>i j. f (g i j) (h i 0)))"
proof (cases "c = 1")
  case True
  have "tabulate r 1 (\<lambda>i j. f (g i j) (h i j)) = tabulate r 1 (\<lambda>i j. f (g i j) (h i 0))"
    by (rule tabulate_cong) simp
  then show ?thesis
    unfolding True tensor_op2_tabulate by simp
next
  case False
  have e: "expand r c (tabulate r 1 h) = map (\<lambda>i. map (\<lambda>j. h i 0) [0..<c]) [0..<r]"
    using False by (simp add: expand_def expand_list_def tabulate_def comp_def map_replicate_trivial)
  have "map2 (map2 f) (map (\<lambda>i. map (g i) [0..<c]) [0..<r]) (map (\<lambda>i. map (\<lambda>j. h i 0) [0..<c]) [0..<r])
        = map (\<lambda>i. map (\<lambda>j. f (g i j) (h i 0)) [0..<c]) [0..<r]"
    by (simp only: map2_map_map)
  then have "Tensor r c (map2 (map2 f) (expand r c (tabulate r c g)) (expand r c (tabulate r 1 h)))
        = tabulate r c (\<lambda>i j. f (g i j) (h i 0))"
    unfolding expand_tabulate e by (simp add: tabulate_def)
  moreover have "broadcast_dim c 1 = Some c"
    using False by (simp add: broadcast_dim_def)
  ultimately show ?thesis
    by (simp add: tensor_op2_def broadcast_dim_def nrows_tabulate ncols_tabulate)
qed

lemma estimate_kl_threshold_shaped:
  assumes "shaped r c t" "1 \<le> c"
  shows "\<exists>h. estimate_kl_threshold t = Inr (tabulate r 1 h)"
proof -
  have len: "length (rows t) = r" and nc: "ncols t \<noteq> 0"
    using assms by (simp_all add: shaped_def wf_tensor_def)
  let ?t = "Tensor r 1 (map (\<lambda>row. [0.5 * (fold max (tl row) (hd row) + fold min (tl row) (hd row))]) (rows t))"
  have "shaped r 1 ?t"
    using len by (simp add: shaped_def wf_tensor_def list_all_iff)
  then have "?t = tabulate r 1 (entry ?t)"
    by (rule shaped_is_tabulate)
  moreover have "estimate_kl_threshold t = Inr ?t"
    using estimate_kl_threshold_rows [OF nc] len by simp
  ultimately have "estimate_kl_threshold t = Inr (tabulate r 1 (entry ?t))"
    by simp
  then show ?thesis
    by blast
qed

lemma estimate_unchanged_tabulate:
  assumes "1 \<le> c"
  shows "\<exists>h. estimate_unchanged (tabulate r c m1) (tabulate r c lv1) (tabulate r c m2) (tabulate r c lv2)
     = Inr (tabulate r c (\<lambda>i j. kl_elem (m1 i j) (lv1 i j) (m2 i j) (lv2 i j)),
            tabulate r 1 h,
            tabulate r c (\<lambda>i j. kl_elem (m1 i j) (lv1 i j) (m2 i j) (lv2 i j) < h i 0))"
proof -
  let ?kl = "tabulate r c (\<lambda>i j. kl_elem (m1 i j) (lv1 i j) (m2 i j) (lv2 i j))"
  obtain h where h: "estimate_kl_threshold ?kl = Inr (tabulate r 1 h)"
    using estimate_kl_threshold_shaped [OF shaped_tabulate assms] by blast
  have "estimate_unchanged (tabulate r c m1) (tabulate r c lv1) (tabulate r c m2) (tabulate r c lv2)
     = Inr (?kl, tabulate r 1 h,
            tabulate r c (\<lambda>i j. kl_elem (m1 i j) (lv1 i j) (m2 i j) (lv2 i j) < h i 0))"
    by (simp only: estimate_unchanged_def kl_normal_loss_pair_elements_tabulate bindE.simps h
        tensor_op2_broadcast_col [OF assms])
  then show ?thesis
    by (rule exI [where x = h])
qed

lemma intercept_z_tabulate:
  assumes eu: "estimate_unchanged (tabulate r c m1) (tabulate r c lv1) (tabulate r c m2) (tabulate r c lv2)
             = Inr (kl, th, tabulate r c p)"
    and ca: "compute_average self (tabulate r c m1) (tabulate r c lv1) (tabulate r c m2) (tabulate r c lv2)
             = Inr (tabulate r c am, tabulate r c al)"
  shows "intercept_z self (tabulate r c m1) (tabulate r c lv1) (tabulate r c m2) (tabulate r c lv2)
     = Inr (tabulate r c (\<lambda>i j. if p i j then am i j else m1 i j),
            tabulate r c (\<lambda>i j. if p i j then al i j else lv1 i j),
            tabulate r c (\<lambda>i j. if p i j then am i j else m2 i j),
            tabulate r c (\<lambda>i j. if p i j then al i j else lv2 i j))"
  by (simp only: intercept_z_def eu ca bindE.simps prod.case getitem_mask_tabulate setitem_mask_tabulate)

lemma AdaVaeLoss_init_compute_average:
  assumes "AdaVaeLoss_init key_order b average_mode = Inr self"
  shows "compute_average self = compute_average_ml_vae \<or> compute_average self = compute_average_gvae"
  using assms
  by (auto simp add: AdaVaeLoss_init_def BetaVaeLoss_init_def AVERAGING_FUNCTIONS_def
      split: if_splits)

lemma compute_average_tabulate:
  assumes "compute_average self = compute_average_ml_vae \<or> compute_average self = compute_average_gvae"
  shows "\<exists>am al. compute_average self (tabulate r c m1) (tabulate r c lv1) (tabulate r c m2) (tabulate r c lv2)
           = Inr (tabulate r c am, tabulate r c al)"
  using assms
proof
  assume e: "compute_average self = compute_average_ml_vae"
  show ?thesis
    unfolding e compute_average_ml_vae_tabulate by blast
next
  assume e: "compute_average self = compute_average_gvae"
  show ?thesis
    unfolding e compute_average_gvae_tabulate by blast
qed

text \<open>
  C2: for two posteriors of the same shape (with at least one latent dimension) and a
  loss object built by the constructor, \<open>intercept_z\<close> returns four tensors such that,
  at every position where the mask of \<open>estimate_unchanged\<close> is true, both returned means
  equal the averaged mean and both returned log-variances equal the averaged
  log-variance, and at every position where the mask is false each returned tensor
  holds the original entry of its own input.
\<close>

theorem intercept_z_overwrites_unchanged:
  assumes init: "AdaVaeLoss_init key_order b average_mode = Inr self"
    and sh: "shaped r c z_mean" "shaped r c z_logvar" "shaped r c z2_mean" "shaped r c z2_logvar"
    and c: "1 \<le> c"
  shows "\<exists>kl_deltas kl_threshs ave_mask ave_mu ave_logvar z_mean' z_logvar' z2_mean' z2_logvar'.
      estimate_unchanged z_mean z_logvar z2_mean z2_logvar = Inr (kl_deltas, kl_threshs, ave_mask)
    \<and> compute_average self z_mean z_logvar z2_mean z2_logvar = Inr (ave_mu, ave_logvar)
    \<and> intercept_z self z_mean z_logvar z2_mean z2_logvar
         = Inr (z_mean', z_logvar', z2_mean', z2_logvar')
    \<and> shaped r c ave_mask \<and> shaped r c ave_mu \<and> shaped r c ave_logvar
    \<and> shaped r c z_mean' \<and> shaped r c z_logvar' \<and> shaped r c z2_mean' \<and> shaped r c z2_logvar'
    \<and> (\<forall>i<r. \<forall>j<c.
          (entry ave_mask i j \<longrightarrow>
              entry z_mean' i j = entry ave_mu i j \<and> entry z2_mean' i j = entry ave_mu i j
            \<and> entry z_logvar' i j = entry ave_logvar i j \<and> entry z2_logvar' i j = entry ave_logvar i j)
        \<and> (\<not> entry ave_mask i j \<longrightarrow>
              entry z_mean' i j = entry z_mean i j \<and> entry z2_mean' i j = entry z2_mean i j
            \<and> entry z_logvar' i j = entry z_logvar i j \<and> entry z2_logvar' i j = entry z2_logvar i j))"
proof -
  define m1 lv1 m2 lv2
    where "m1 = entry z_mean" and "lv1 = entry z_logvar"
      and "m2 = entry z2_mean" and "lv2 = entry z2_logvar"
  have tab: "z_mean = tabulate r c m1" "z_logvar = tabulate r c lv1"
    "z2_mean = tabulate r c m2" "z2_logvar = tabulate r c lv2"
    unfolding m1_def lv1_def m2_def lv2_def by (rule shaped_is_tabulate, fact)+
  define kl where "kl = (\<lambda>i j. kl_elem (m1 i j) (lv1 i j) (m2 i j) (lv2 i j))"
  obtain h where eu: "estimate_unchanged (tabulate r c m1) (tabulate r c lv1) (tabulate r c m2)
        (tabulate r c lv2) = Inr (tabulate r c kl, tabulate r 1 h, tabulate r c (\<lambda>i j. kl i j < h i 0))"
    unfolding kl_def using estimate_unchanged_tabulate [OF c] by blast
  obtain am al where ca: "compute_average self (tabulate r c m1) (tabulate r c lv1) (tabulate r c m2)
        (tabulate r c lv2) = Inr (tabulate r c am, tabulate r c al)"
    using compute_average_tabulate [OF AdaVaeLoss_init_compute_average [OF init]] by blast
  note iz = intercept_z_tabulate [OF eu ca]
  show ?thesis
    unfolding tab eu ca iz
    by (simp add: shaped_tabulate entry_tabulate)
qed

theorem intercept_z_overwrites_unchanged_witness:
  "AdaVaeLoss_init [''ml-vae'', ''gvae''] 4 ''gvae''
      = Inr \<lparr>beta = 4, compute_average = compute_average_gvae\<rparr>
   \<and> shaped 1 2 (Tensor 1 2 [[0, 0::real]]) \<and> shaped 1 2 (Tensor 1 2 [[0, 5::real]]) \<and> (1::nat) \<le> 2
   \<and> (\<exists>z_mean' z_logvar' z2_mean' z2_logvar'.
        intercept_z \<lparr>beta = 4, compute_average = compute_average_gvae\<rparr>
          (Tensor 1 2 [[0, 0]]) (Tensor 1 2 [[0, 0]]) (Tensor 1 2 [[0, 5]]) (Tensor 1 2 [[0, 0]])
          = Inr (z_mean', z_logvar', z2_mean', z2_logvar')
        \<and> entry z_mean' 0 0 = 0 \<and> entry z2_mean' 0 0 = 0
        \<and> entry z_mean' 0 1 = 0 \<and> entry z2_mean' 0 1 = 5)"
proof -
  have init: "AdaVaeLoss_init [''ml-vae'', ''gvae''] 4 ''gvae''
      = Inr \<lparr>beta = 4, compute_average = compute_average_gvae\<rparr>"
    by (simp add: AdaVaeLoss_init_def BetaVaeLoss_init_def AVERAGING_FUNCTIONS_def)
  have a: "shaped 1 2 (Tensor 1 2 [[0, 0::real]])" and b: "shaped 1 2 (Tensor 1 2 [[0, 5::real]])"
    by (simp_all add: shaped_def wf_tensor_def)
  have d: "(1::nat) \<le> 2"
    by simp
  have eu: "estimate_unchanged (Tensor 1 2 [[0, 0]]) (Tensor 1 2 [[0, 0]]) (Tensor 1 2 [[0, 5]])
              (Tensor 1 2 [[0, 0]])
            = Inr (Tensor 1 2 [[0, 25 / 2]], Tensor 1 1 [[25 / 4]], Tensor 1 2 [[True, False]])"
    by (simp add: estimate_unchanged_def kl_normal_loss_pair_elements_def estimate_kl_threshold_def
        reduce_axis1_def index_none_def tensor_op2_def tensor_map_def broadcast_dim_def
        expand_def expand_list_def numeral_2_eq_2)
  have ca: "compute_average_gvae (Tensor 1 2 [[0, 0]]) (Tensor 1 2 [[0, 0]]) (Tensor 1 2 [[0, 5]])
              (Tensor 1 2 [[0, 0]])
            = Inr (Tensor 1 2 [[0, 5 / 2]], Tensor 1 2 [[0, 0]])"
    by (simp add: compute_average_gvae_def tensor_op2_def tensor_map_def broadcast_dim_def
        expand_def expand_list_def)
  have sel: "compute_average \<lparr>beta = 4, compute_average = compute_average_gvae\<rparr>
               = compute_average_gvae"
    by simp
  from intercept_z_overwrites_unchanged [OF init a a b a d] init a b d show ?thesis
    unfolding eu sel ca by (auto simp add: entry_def numeral_2_eq_2 All_less_Suc)
qed

subsection \<open>Exchanging the two posteriors\<close>

lemma tabulate_eq_iff:
  "tabulate r c f = tabulate r c g \<longleftrightarrow> (\<forall>i<r. \<forall>j<c. f i j = g i j)"
proof
  assume e: "tabulate r c f = tabulate r c g"
  show "\<forall>i<r. \<forall>j<c. f i j = g i j"
  proof (intro allI impI)
    fix i j assume ij: "i < r" "j < c"
    have "entry (tabulate r c f) i j = entry (tabulate r c g) i j"
      by (simp only: e)
    then show "f i j = g i j"
      by (simp only: entry_tabulate [OF ij])
  qed
next
  assume "\<forall>i<r. \<forall>j<c. f i j = g i j"
  then show "tabulate r c f = tabulate r c g"
    by (intro tabulate_cong) blast
qed

lemma half_minus_one_eq_iff:
  fixes x y :: real
  shows "(x - 1) / 2 = (y - 1) / 2 \<longleftrightarrow> x = y"
  by auto

lemma kl_elem_swap_iff:
  "kl_elem m1 lv1 m2 lv2 = kl_elem m2 lv2 m1 lv1 \<longleftrightarrow> lv1 = lv2"
proof -
  define a b d where "a = exp lv1" and "b = exp lv2" and "d = (m2 - m1) ^ 2"
  have pos: "0 < a" "0 < b" and d0: "0 \<le> d"
    by (simp_all add: a_def b_def d_def)
  have d': "(m1 - m2) ^ 2 = d"
    by (simp add: d_def power2_commute)
  have k1: "kl_elem m1 lv1 m2 lv2 = ((a + d) / b - 1) / 2"
    unfolding kl_elem_def a_def b_def d_def by (simp add: add_divide_distrib)
  have k2: "kl_elem m2 lv2 m1 lv1 = ((b + d) / a - 1) / 2"
    unfolding kl_elem_def d' unfolding a_def b_def d_def by (simp add: add_divide_distrib)
  have "kl_elem m1 lv1 m2 lv2 = kl_elem m2 lv2 m1 lv1 \<longleftrightarrow> (a + d) / b = (b + d) / a"
    unfolding k1 k2 by (rule half_minus_one_eq_iff)
  also have "\<dots> \<longleftrightarrow> (a + d) * a = (b + d) * b"
    using pos by (simp add: frac_eq_eq)
  also have "\<dots> \<longleftrightarrow> (a - b) * (a + b + d) = 0"
    by (simp add: algebra_simps)
  also have "\<dots> \<longleftrightarrow> a = b"
    using pos d0 by auto
  also have "\<dots> \<longleftrightarrow> lv1 = lv2"
    by (simp add: a_def b_def)
  finally show ?thesis .
qed

text \<open>
  C8 as stated fails: the deltas are not symmetric in the two posteriors. With equal means and the
  log-variances \<open>[0, 0]\<close> and \<open>[0, 1]\<close>, the second delta is \<open>(1 / e - 1) / 2\<close> in one order and
  \<open>(e - 1) / 2\<close> in the other, and the two masks are \<open>[False, True]\<close> and \<open>[True, False]\<close>.
\<close>

theorem estimate_unchanged_swap_counterexample:
  "estimate_unchanged (Tensor 1 2 [[0, 0]]) (Tensor 1 2 [[0, 0]])
                      (Tensor 1 2 [[0, 0]]) (Tensor 1 2 [[0, 1]])
     = Inr (Tensor 1 2 [[0, (1 / exp 1 - 1) / 2]], Tensor 1 1 [[(1 / exp 1 - 1) / 4]],
            Tensor 1 2 [[False, True]])
   \<and> estimate_unchanged (Tensor 1 2 [[0, 0]]) (Tensor 1 2 [[0, 1]])
                        (Tensor 1 2 [[0, 0]]) (Tensor 1 2 [[0, 0]])
     = Inr (Tensor 1 2 [[0, (exp 1 - 1) / 2]], Tensor 1 1 [[(exp 1 - 1) / 4]],
            Tensor 1 2 [[True, False]])
   \<and> (1 / exp 1 - 1) / 2 \<noteq> (exp 1 - 1) / (2::real)"
proof -
  have e: "1 < exp (1::real)"
    by simp
  then have i: "1 / exp (1::real) < 1"
    by simp
  have mx1: "max 0 ((1 / exp 1 - 1) / 2) = (0::real)" and mn1: "min 0 ((1 / exp 1 - 1) / 2) = (1 / exp 1 - 1) / (2::real)"
    using i by (simp_all add: max_def min_def)
  have mx2: "max 0 ((exp 1 - 1) / 2) = (exp 1 - 1) / (2::real)" and mn2: "min 0 ((exp 1 - 1) / 2) = (0::real)"
    using e by (simp_all add: max_def min_def)
  have i4: "4 / exp (1::real) < 2 + 2 / exp 1"
    using e by (simp add: field_simps)
  have fwd: "estimate_unchanged (Tensor 1 2 [[0, 0]]) (Tensor 1 2 [[0, 0]])
                      (Tensor 1 2 [[0, 0]]) (Tensor 1 2 [[0, 1]])
     = Inr (Tensor 1 2 [[0, (1 / exp 1 - 1) / 2]], Tensor 1 1 [[(1 / exp 1 - 1) / 4]],
            Tensor 1 2 [[False, True]])"
    using i i4
    by (simp add: estimate_unchanged_def kl_normal_loss_pair_elements_def estimate_kl_threshold_def
        reduce_axis1_def index_none_def tensor_op2_def tensor_map_def broadcast_dim_def
        expand_def expand_list_def numeral_2_eq_2 mx1 mn1)
  have bwd: "estimate_unchanged (Tensor 1 2 [[0, 0]]) (Tensor 1 2 [[0, 1]])
                        (Tensor 1 2 [[0, 0]]) (Tensor 1 2 [[0, 0]])
     = Inr (Tensor 1 2 [[0, (exp 1 - 1) / 2]], Tensor 1 1 [[(exp 1 - 1) / 4]],
            Tensor 1 2 [[True, False]])"
    using e
    by (simp add: estimate_unchanged_def kl_normal_loss_pair_elements_def estimate_kl_threshold_def
        reduce_axis1_def index_none_def tensor_op2_def tensor_map_def broadcast_dim_def
        expand_def expand_list_def numeral_2_eq_2 mx2 mn2)
  have "1 / exp 1 \<noteq> exp (1::real)"
    using e i by linarith
  then have ne: "(1 / exp 1 - 1) / 2 \<noteq> (exp 1 - 1) / (2::real)"
    by (simp only: half_minus_one_eq_iff not_False_eq_True)
  from fwd bwd ne show ?thesis
    by blast
qed

lemma kl_normal_loss_pair_elements_swap_iff:
  assumes "shaped r c z_mean" "shaped r c z_logvar" "shaped r c z2_mean" "shaped r c z2_logvar"
  shows "kl_normal_loss_pair_elements z_mean z_logvar z2_mean z2_logvar
            = kl_normal_loss_pair_elements z2_mean z2_logvar z_mean z_logvar
          \<longleftrightarrow> z_logvar = z2_logvar"
proof -
  define m1 lv1 m2 lv2
    where "m1 = entry z_mean" and "lv1 = entry z_logvar"
      and "m2 = entry z2_mean" and "lv2 = entry z2_logvar"
  have tab: "z_mean = tabulate r c m1" "z_logvar = tabulate r c lv1"
    "z2_mean = tabulate r c m2" "z2_logvar = tabulate r c lv2"
    unfolding m1_def lv1_def m2_def lv2_def by (rule shaped_is_tabulate, fact)+
  show ?thesis
    unfolding tab
    by (simp only: kl_normal_loss_pair_elements_tabulate sum.inject tabulate_eq_iff kl_elem_swap_iff)
qed

text \<open>
  C8 (amended): for two posteriors of the same shape whose log-variances are equal (and
  with at least one latent dimension), \<open>estimate_unchanged\<close> returns the same KL deltas,
  the same threshold and the same mask when the two posteriors are exchanged.
\<close>

theorem estimate_unchanged_swap_equal_logvar:
  assumes sh: "shaped r c z_mean" "shaped r c z_logvar" "shaped r c z2_mean"
    and c: "1 \<le> c"
  shows "\<exists>kl_deltas kl_threshs unchanged_mask.
            estimate_unchanged z_mean z_logvar z2_mean z_logvar
              = Inr (kl_deltas, kl_threshs, unchanged_mask)
          \<and> estimate_unchanged z2_mean z_logvar z_mean z_logvar
              = Inr (kl_deltas, kl_threshs, unchanged_mask)"
proof -
  define m1 lv m2
    where "m1 = entry z_mean" and "lv = entry z_logvar" and "m2 = entry z2_mean"
  have tab: "z_mean = tabulate r c m1" "z_logvar = tabulate r c lv" "z2_mean = tabulate r c m2"
    unfolding m1_def lv_def m2_def by (rule shaped_is_tabulate, fact)+
  have "kl_normal_loss_pair_elements z2_mean z_logvar z_mean z_logvar
      = kl_normal_loss_pair_elements z_mean z_logvar z2_mean z_logvar"
    using kl_normal_loss_pair_elements_swap_iff [OF sh(1) sh(2) sh(3) sh(2)] by simp
  then have sw: "estimate_unchanged z2_mean z_logvar z_mean z_logvar
      = estimate_unchanged z_mean z_logvar z2_mean z_logvar"
    by (simp only: estimate_unchanged_def)
  from estimate_unchanged_tabulate [OF c, of r m1 lv m2 lv] show ?thesis
    unfolding sw unfolding tab by blast
qed

theorem estimate_unchanged_swap_equal_logvar_witness:
  "shaped 1 2 (Tensor 1 2 [[0, 0::real]]) \<and> shaped 1 2 (Tensor 1 2 [[0, 5::real]]) \<and> (1::nat) \<le> 2
   \<and> (\<exists>kl_deltas kl_threshs unchanged_mask.
          estimate_unchanged (Tensor 1 2 [[0, 0]]) (Tensor 1 2 [[0, 0]])
                             (Tensor 1 2 [[0, 5]]) (Tensor 1 2 [[0, 0]])
            = Inr (kl_deltas, kl_threshs, unchanged_mask)
        \<and> estimate_unchanged (Tensor 1 2 [[0, 5]]) (Tensor 1 2 [[0, 0]])
                               (Tensor 1 2 [[0, 0]]) (Tensor 1 2 [[0, 0]])
            = Inr (kl_deltas, kl_threshs, unchanged_mask))"
proof -
  have a: "shaped 1 2 (Tensor 1 2 [[0, 0::real]])" and b: "shaped 1 2 (Tensor 1 2 [[0, 5::real]])"
    by (simp_all add: shaped_def wf_tensor_def)
  have d: "(1::nat) \<le> 2"
    by simp
  from estimate_unchanged_swap_equal_logvar [OF a a b d] a b d show ?thesis
    by blast
qed

subsection \<open>Construction\<close>

lemma bindE_Inl_iff: "bindE m f = Inl e \<longleftrightarrow> m = Inl e \<or> (\<exists>x. m = Inr x \<and> f x = Inl e)"
  by (cases m) auto

lemma tensor_op2_error: "tensor_op2 f a b = Inl e \<Longrightarrow> e = RuntimeError"
  by (auto simp add: tensor_op2_def split: option.splits)

lemma reduce_axis1_error: "reduce_axis1 f t = Inl e \<Longrightarrow> e = IndexError"
  by (auto simp add: reduce_axis1_def split: if_splits)

lemma getitem_mask_error: "getitem_mask t msk = Inl e \<Longrightarrow> e = IndexError"
  by (auto simp add: getitem_mask_def split: if_splits)

lemma setitem_mask_error: "setitem_mask t msk vals = Inl e \<Longrightarrow> e = IndexError \<or> e = RuntimeError"
  by (auto simp add: setitem_mask_def Let_def split: if_splits)

lemma kl_normal_loss_pair_elements_error:
  "kl_normal_loss_pair_elements a b c d = Inl e \<Longrightarrow> e = RuntimeError"
  by (auto simp add: kl_normal_loss_pair_elements_def bindE_Inl_iff dest: tensor_op2_error)

lemma compute_average_gvae_error: "compute_average_gvae a b c d = Inl e \<Longrightarrow> e = RuntimeError"
  by (auto simp add: compute_average_gvae_def Let_def bindE_Inl_iff dest: tensor_op2_error)

lemma compute_average_ml_vae_error: "compute_average_ml_vae a b c d = Inl e \<Longrightarrow> e = RuntimeError"
  by (auto simp add: compute_average_ml_vae_def Let_def bindE_Inl_iff dest: tensor_op2_error)

lemma estimate_kl_threshold_error: "estimate_kl_threshold t = Inl e \<Longrightarrow> e = IndexError"
  by (auto simp add: estimate_kl_threshold_def Let_def bindE_Inl_iff dest: reduce_axis1_error)

lemma estimate_unchanged_error:
  "estimate_unchanged a b c d = Inl e \<Longrightarrow> e = IndexError \<or> e = RuntimeError"
  by (auto simp add: estimate_unchanged_def bindE_Inl_iff
      dest: tensor_op2_error estimate_kl_threshold_error kl_normal_loss_pair_elements_error)

lemma intercept_z_error:
  assumes "compute_average self = compute_average_ml_vae \<or> compute_average self = compute_average_gvae"
    and "intercept_z self a b c d = Inl e"
  shows "e = IndexError \<or> e = RuntimeError"
proof -
  have ca: "compute_average self a b c d = Inl e' \<Longrightarrow> e' = RuntimeError" for e'
    using assms(1) compute_average_gvae_error compute_average_ml_vae_error by metis
  from assms(2) show ?thesis
    by (auto simp add: intercept_z_def bindE_Inl_iff split: prod.splits
        dest: estimate_unchanged_error ca getitem_mask_error setitem_mask_error)
qed

text \<open>
  C9: the constructor called with an averaging mode other than \<open>gvae\<close> and \<open>ml-vae\<close>
  returns a KeyError whose message holds the \<open>repr\<close> of the given mode and the text of
  the set of the valid keys; called with \<open>gvae\<close> or \<open>ml-vae\<close> it returns the object with
  the matching averaging function; and \<open>intercept_z\<close> on a constructed object never
  returns a KeyError.
\<close>

theorem AdaVaeLoss_init_average_mode:
  "(average_mode \<noteq> ''gvae'' \<and> average_mode \<noteq> ''ml-vae'' \<longrightarrow>
      AdaVaeLoss_init key_order b average_mode
        = Inl (KeyError (''Unsupported average_mode='' @ py_repr average_mode
                         @ '' must be one of: '' @ set_str key_order)))
   \<and> AdaVaeLoss_init key_order b ''gvae''
        = Inr \<lparr>beta = b, compute_average = compute_average_gvae\<rparr>
   \<and> AdaVaeLoss_init key_order b ''ml-vae''
        = Inr \<lparr>beta = b, compute_average = compute_average_ml_vae\<rparr>
   \<and> (\<forall>self. AdaVaeLoss_init key_order b average_mode = Inr self \<longrightarrow>
         (\<forall>z_mean z_logvar z2_mean z2_logvar msg.
            intercept_z self z_mean z_logvar z2_mean z2_logvar \<noteq> Inl (KeyError msg)))"
proof -
  have bad: "AdaVaeLoss_init key_order b average_mode
        = Inl (KeyError (''Unsupported average_mode='' @ py_repr average_mode
                         @ '' must be one of: '' @ set_str key_order))"
    if "average_mode \<noteq> ''gvae''" "average_mode \<noteq> ''ml-vae''"
    using that by (simp add: AdaVaeLoss_init_def BetaVaeLoss_init_def AVERAGING_FUNCTIONS_def)
  have g: "AdaVaeLoss_init key_order b ''gvae''
        = Inr \<lparr>beta = b, compute_average = compute_average_gvae\<rparr>"
    by (simp add: AdaVaeLoss_init_def BetaVaeLoss_init_def AVERAGING_FUNCTIONS_def)
  have m: "AdaVaeLoss_init key_order b ''ml-vae''
        = Inr \<lparr>beta = b, compute_average = compute_average_ml_vae\<rparr>"
    by (simp add: AdaVaeLoss_init_def BetaVaeLoss_init_def AVERAGING_FUNCTIONS_def)
  have call: "intercept_z self z_mean z_logvar z2_mean z2_logvar \<noteq> Inl (KeyError msg)"
    if "AdaVaeLoss_init key_order b average_mode = Inr self"
    for self z_mean z_logvar z2_mean z2_logvar msg
    using intercept_z_error [OF AdaVaeLoss_init_compute_average [OF that]] by blast
  from bad g m call show ?thesis
    by blast
qed

theorem AdaVaeLoss_init_average_mode_witness:
  "''bogus'' \<noteq> ''gvae'' \<and> ''bogus'' \<noteq> ''ml-vae''
   \<and> AdaVaeLoss_init [''ml-vae'', ''gvae''] 4 ''bogus''
       = Inl (KeyError (''Unsupported average_mode='' @ [CHR 0x27] @ ''bogus'' @ [CHR 0x27]
                        @ '' must be one of: {'' @ [CHR 0x27] @ ''ml-vae'' @ [CHR 0x27] @ '', ''
                        @ [CHR 0x27] @ ''gvae'' @ [CHR 0x27] @ ''}''))
   \<and> AdaVaeLoss_init [''ml-vae'', ''gvae''] 4 ''gvae''
       = Inr \<lparr>beta = 4, compute_average = compute_average_gvae\<rparr>
   \<and> intercept_z \<lparr>beta = 4, compute_average = compute_average_gvae\<rparr>
        (Tensor 1 2 [[0, 0]]) (Tensor 1 2 [[0, 0]]) (Tensor 1 3 [[0, 0, 0]]) (Tensor 1 3 [[0, 0, 0]])
       \<noteq> Inl (KeyError ''Unsupported'')"
proof -
  have ne: "''bogus'' \<noteq> ''gvae''" "''bogus'' \<noteq> ''ml-vae''"
    by simp_all
  have rendered: "''Unsupported average_mode='' @ py_repr ''bogus'' @ '' must be one of: ''
               @ set_str [''ml-vae'', ''gvae'']
             = ''Unsupported average_mode='' @ [CHR 0x27] @ ''bogus'' @ [CHR 0x27]
                 @ '' must be one of: {'' @ [CHR 0x27] @ ''ml-vae'' @ [CHR 0x27] @ '', ''
                 @ [CHR 0x27] @ ''gvae'' @ [CHR 0x27] @ ''}''"
    by (simp add: py_repr_def set_str_def repr_char_def Let_def)
  note bogus = AdaVaeLoss_init_average_mode
    [where average_mode = "''bogus''" and key_order = "[''ml-vae'', ''gvae'']" and b = 4]
  note gvae = AdaVaeLoss_init_average_mode
    [where average_mode = "''gvae''" and key_order = "[''ml-vae'', ''gvae'']" and b = 4]
  from bogus ne have 1: "AdaVaeLoss_init [''ml-vae'', ''gvae''] 4 ''bogus''
       = Inl (KeyError (''Unsupported average_mode='' @ py_repr ''bogus'' @ '' must be one of: ''
               @ set_str [''ml-vae'', ''gvae'']))"
    by blast
  from gvae have 2: "AdaVaeLoss_init [''ml-vae'', ''gvae''] 4 ''gvae''
       = Inr \<lparr>beta = 4, compute_average = compute_average_gvae\<rparr>"
    by blast
  from gvae 2 have 3: "intercept_z \<lparr>beta = 4, compute_average = compute_average_gvae\<rparr>
        (Tensor 1 2 [[0, 0]]) (Tensor 1 2 [[0, 0]]) (Tensor 1 3 [[0, 0, 0]]) (Tensor 1 3 [[0, 0, 0]])
       \<noteq> Inl (KeyError ''Unsupported'')"
    by blast
  from ne 1 2 3 show ?thesis
    unfolding rendered by blast
qed

end
